theory Spec2Isabelle
  imports Main "HOL-Library.Sublist"
begin

section \<open>JavaScript values and their string conversion\<close>

text \<open>
  The builder of \<^verbatim>\<open>src/lib/mysql.ts\<close> concatenates SQL text from values typed
  \<^verbatim>\<open>any\<close>. The model keeps the dynamic type of such a value. Numbers are the
  integers and \<^verbatim>\<open>NaN\<close> (the source tests for it); fractions and infinities are
  outside the model. A JavaScript number is a double: its arithmetic and its text agree with
  the integers' exactly for the safe integers, of magnitude at most \<open>2\<^sup>5\<^sup>3 - 1\<close>
  (\<open>safe_integer\<close> below), and the statements about number texts are made for those.
  Strings are byte strings; case conversion is that of ASCII letters, which is all that
  \<^verbatim>\<open>toUpperCase\<close> does on a string of ASCII characters (\<open>ascii_text\<close> below).
\<close>

datatype jsnum = NaN | Num int

datatype jsval =
    JUndefined
  | JNull
  | JBool bool
  | JNumber jsnum
  | JStr string
  | JArr "jsval list"
  | JObj "(string \<times> jsval) list"

text \<open>
  One constructor for each \<^verbatim>\<open>throw new Error(...)\<close> of the source, named after what its
  message says, one for the TypeError the JavaScript engine raises, and one for whatever the
  executor reports. \<open>InsertFailed\<close> is the error \<^verbatim>\<open>insert\<close> builds from the message of
  the one it caught.
\<close>

datatype error =
    FieldWithoutNameOrType
  | InvalidDirection string
  | InsertRequiresArray
  | InsertRequiresObjects
  | InsertFailed error
  | UpdateRequiresObject
  | UpdateRequiresWhere
  | DeleteRequiresWhere
  | TypeError
  | ExecutorError string

definition digit_char :: "nat \<Rightarrow> char" where
  "digit_char d = ''0123456789'' ! d"

function show_nat :: "nat \<Rightarrow> string" where
  "show_nat n = (if n < 10 then [digit_char n] else show_nat (n div 10) @ [digit_char (n mod 10)])"
  by pat_completeness auto
termination
  by (relation "measure id") auto

declare show_nat.simps [simp del]

definition show_int :: "int \<Rightarrow> string" where
  "show_int i = (if i < 0 then CHR ''-'' # show_nat (nat (- i)) else show_nat (nat i))"

fun show_num :: "jsnum \<Rightarrow> string" where
  "show_num NaN = ''NaN''"
| "show_num (Num i) = show_int i"

text \<open>\<^verbatim>\<open>xs.join(sep)\<close> on strings.\<close>

fun join :: "string \<Rightarrow> string list \<Rightarrow> string" where
  "join sep [] = []"
| "join sep [x] = x"
| "join sep (x # y # ys) = x @ sep @ join sep (y # ys)"

text \<open>
  \<^verbatim>\<open>String(v)\<close>, the conversion a template literal applies. An array is its elements
  joined by a comma, \<^verbatim>\<open>null\<close> and \<^verbatim>\<open>undefined\<close> elements giving the empty
  string; a plain object is \<^verbatim>\<open>[object Object]\<close>.
\<close>

fun js_string :: "jsval \<Rightarrow> string" where
  "js_string JUndefined = ''undefined''"
| "js_string JNull = ''null''"
| "js_string (JBool b) = (if b then ''true'' else ''false'')"
| "js_string (JNumber n) = show_num n"
| "js_string (JStr s) = s"
| "js_string (JArr xs) =
     join '','' (map (\<lambda>x. if x = JUndefined \<or> x = JNull then [] else js_string x) xs)"
| "js_string (JObj kvs) = ''[object Object]''"

text \<open>The element conversion of \<^verbatim>\<open>Array.prototype.join\<close>.\<close>

definition join_elem :: "jsval \<Rightarrow> string" where
  "join_elem v = (if v = JUndefined \<or> v = JNull then [] else js_string v)"

text \<open>Truthiness, as \<^verbatim>\<open>if (v)\<close>, \<^verbatim>\<open>v && e\<close> and \<^verbatim>\<open>v ? a : b\<close> test it.\<close>

fun truthy :: "jsval \<Rightarrow> bool" where
  "truthy JUndefined = False"
| "truthy JNull = False"
| "truthy (JBool b) = b"
| "truthy (JNumber NaN) = False"
| "truthy (JNumber (Num i)) = (i \<noteq> 0)"
| "truthy (JStr s) = (s \<noteq> [])"
| "truthy (JArr xs) = True"
| "truthy (JObj kvs) = True"

definition quoted :: "string \<Rightarrow> string" where
  "quoted s = CHR 0x27 # s @ [CHR 0x27]"

definition backticked :: "string \<Rightarrow> string" where
  "backticked s = CHR 0x60 # s @ [CHR 0x60]"

text \<open>\<^verbatim>\<open>typeof v === 'string' ? `'${v}'` : v\<close>, then interpolated into a template.\<close>

fun format_value :: "jsval \<Rightarrow> string" where
  "format_value (JStr s) = quoted s"
| "format_value v = js_string v"

definition toUpperCase_char :: "char \<Rightarrow> char" where
  "toUpperCase_char c =
     (case map_of (zip ''abcdefghijklmnopqrstuvwxyz'' ''ABCDEFGHIJKLMNOPQRSTUVWXYZ'') c of
        Some u \<Rightarrow> u
      | None \<Rightarrow> c)"

definition toUpperCase :: "string \<Rightarrow> string" where
  "toUpperCase s = map toUpperCase_char s"

subsection \<open>Where the model is exact\<close>




section \<open>Conditions and their compilation\<close>

text \<open>
  The interface \<^verbatim>\<open>Condition\<close> of \<^verbatim>\<open>@types/Field.ts\<close> has a flag
  \<^verbatim>\<open>isGroup\<close>; a simple condition carries \<^verbatim>\<open>column\<close>, \<^verbatim>\<open>operator\<close>,
  \<^verbatim>\<open>value\<close> and \<^verbatim>\<open>type\<close>, a group carries \<^verbatim>\<open>query\<close> and \<^verbatim>\<open>type\<close>.
  The field \<^verbatim>\<open>type\<close> is the combinator, a string. An absent \<^verbatim>\<open>value\<close> is
  \<open>JUndefined\<close>.
\<close>

datatype condition =
    Simple (column: string) (operator: string) (cvalue: jsval) (ctype: string)
  | Group (gquery: string) (ctype: string)

text \<open>
  \<^verbatim>\<open>const [value1, value2] = cond.value\<close>: an array gives its first two elements
  (\<^verbatim>\<open>undefined\<close> where it is shorter), a string its first two characters, and a value
  that is not iterable raises a TypeError.
\<close>

definition nth_or_undefined :: "jsval list \<Rightarrow> nat \<Rightarrow> jsval" where
  "nth_or_undefined xs i = (if i < length xs then xs ! i else JUndefined)"

fun destructure2 :: "jsval \<Rightarrow> error + (jsval \<times> jsval)" where
  "destructure2 (JArr xs) = Inr (nth_or_undefined xs 0, nth_or_undefined xs 1)"
| "destructure2 (JStr s) =
     Inr (nth_or_undefined (map (\<lambda>c. JStr [c]) s) 0, nth_or_undefined (map (\<lambda>c. JStr [c]) s) 1)"
| "destructure2 v = Inl TypeError"

text \<open>
  The body of one condition, without its prefix: the branches of the callback in
  \<^verbatim>\<open>buildConditions\<close>, in the order of the source.
\<close>

fun conditionStr :: "condition \<Rightarrow> error + string" where
  "conditionStr (Group q t) = Inr (''('' @ q @ '')'')"
| "conditionStr (Simple col op v t) =
     (if op = ''BETWEEN'' then
        (case destructure2 v of
           Inl e \<Rightarrow> Inl e
         | Inr (value1, value2) \<Rightarrow>
             Inr (col @ '' BETWEEN '' @ format_value value1 @ '' AND '' @ format_value value2))
      else if op = ''IN'' then
        (case v of
           JArr vals \<Rightarrow>
             Inr (col @ '' IN ('' @
                  join '', '' (map (\<lambda>val. case val of JStr s \<Rightarrow> quoted s | _ \<Rightarrow> join_elem val) vals)
                  @ '')'')
         | _ \<Rightarrow> Inl TypeError)
      else if op = ''IS NULL'' then Inr (col @ '' IS NULL'')
      else if op = ''IS NOT NULL'' then Inr (col @ '' IS NOT NULL'')
      else Inr (col @ '' '' @ op @ '' '' @ format_value v))"

text \<open>The callback of \<^verbatim>\<open>map((cond, index) => ...)\<close>: prefix, then body.\<close>

definition cond_fragment :: "nat \<Rightarrow> condition \<Rightarrow> error + string" where
  "cond_fragment index cond =
     (let prefix = (if index = 0 then [] else '' '' @ ctype cond @ '' '')
      in case conditionStr cond of Inl e \<Rightarrow> Inl e | Inr s \<Rightarrow> Inr (prefix @ s))"

text \<open>A \<^verbatim>\<open>map\<close> whose callback may throw stops at the first exception.\<close>

fun collect :: "(error + 'a) list \<Rightarrow> error + 'a list" where
  "collect [] = Inr []"
| "collect (Inl e # rs) = Inl e"
| "collect (Inr x # rs) = (case collect rs of Inl e \<Rightarrow> Inl e | Inr xs \<Rightarrow> Inr (x # xs))"

definition buildConditions :: "condition list \<Rightarrow> error + string" where
  "buildConditions conds =
     (case collect (map (\<lambda>(index, cond). cond_fragment index cond) (enumerate 0 conds)) of
        Inl e \<Rightarrow> Inl e
      | Inr parts \<Rightarrow> Inr (concat parts))"

section \<open>The query builder\<close>

text \<open>
  The mutable fields of class \<^verbatim>\<open>TableQuery\<close>. The fields \<^verbatim>\<open>_orderBy\<close>,
  \<^verbatim>\<open>_distinct\<close> and \<^verbatim>\<open>_groupBy\<close> are \<open>order_by\<close>, \<open>distinct_flag\<close> and
  \<open>group_by\<close>, and \<^verbatim>\<open>fields\<close> is \<open>fields_tq\<close>. A limit or page of \<open>None\<close> is \<^verbatim>\<open>null\<close>, the initial value. The
  connection is not part of the record: see the executor below.
\<close>

record order_spec =
  ocolumn :: string
  direction :: string

record tq =
  nextType :: string
  joins :: "string list"
  order_by :: "order_spec list"
  distinct_flag :: bool
  group_by :: "string list"
  tableName :: string
  fields_tq :: "string list"
  query :: string
  conditions :: "condition list"
  limitValue :: "jsnum option"
  pageValue :: "jsnum option"

definition TableQuery :: "string \<Rightarrow> tq" where
  "TableQuery t =
     \<lparr> nextType = ''AND'', joins = [], order_by = [], distinct_flag = False, group_by = [],
       tableName = t, fields_tq = [], query = ''SELECT * FROM '' @ backticked t,
       conditions = [], limitValue = None, pageValue = None \<rparr>"

definition select :: "string list \<Rightarrow> tq \<Rightarrow> tq" where
  "select fs s =
     (if length fs > 0 then
        s\<lparr>query := ''SELECT '' @ (if distinct_flag s then ''DISTINCT '' else []) @ join '', '' fs
                     @ '' FROM '' @ backticked (tableName s)\<rparr>
      else s)"

text \<open>An operator of \<open>None\<close> is \<^verbatim>\<open>undefined\<close>, which \<^verbatim>\<open>where\<close> replaces by \<^verbatim>\<open>=\<close>.\<close>

definition where_tq :: "string \<Rightarrow> string option \<Rightarrow> jsval \<Rightarrow> tq \<Rightarrow> tq" where
  "where_tq col operator_opt v s =
     (let op = (case operator_opt of None \<Rightarrow> ''='' | Some x \<Rightarrow> x)
      in s\<lparr>conditions := conditions s @ [Simple col op v (nextType s)], nextType := ''AND''\<rparr>)"

definition orWhere :: "string \<Rightarrow> string option \<Rightarrow> jsval \<Rightarrow> tq \<Rightarrow> tq" where
  "orWhere col operator_opt v s =
     (let op = (case operator_opt of None \<Rightarrow> ''='' | Some x \<Rightarrow> x)
      in s\<lparr>conditions := conditions s @ [Simple col op v ''OR'']\<rparr>)"

text \<open>
  The callback of \<^verbatim>\<open>whereGroup\<close> receives a fresh builder on the same table and
  mutates it; the model takes it as a function on builder states.
\<close>

definition whereGroup :: "(tq \<Rightarrow> tq) \<Rightarrow> tq \<Rightarrow> error + tq" where
  "whereGroup callback s =
     (let groupQuery = callback (TableQuery (tableName s))
      in case buildConditions (conditions groupQuery) of
           Inl e \<Rightarrow> Inl e
         | Inr groupConditions \<Rightarrow>
             Inr (s\<lparr>conditions := conditions s @ [Group groupConditions (nextType s)],
                    nextType := ''AND''\<rparr>))"

definition or_tq :: "tq \<Rightarrow> tq" where
  "or_tq s = s\<lparr>nextType := ''OR''\<rparr>"

definition and_tq :: "tq \<Rightarrow> tq" where
  "and_tq s = s\<lparr>nextType := ''AND''\<rparr>"

text \<open>
  \<^verbatim>\<open>whereBetween(column, [value1, value2])\<close> destructures its second argument in the
  parameter list, so an argument that is not iterable raises before the body runs.
\<close>

definition whereBetween :: "string \<Rightarrow> jsval \<Rightarrow> tq \<Rightarrow> error + tq" where
  "whereBetween col arg s =
     (case destructure2 arg of
        Inl e \<Rightarrow> Inl e
      | Inr (value1, value2) \<Rightarrow>
          if value1 \<noteq> JUndefined \<and> value2 \<noteq> JUndefined then
            Inr (s\<lparr>conditions := conditions s
                       @ [Simple col ''BETWEEN'' (JArr [value1, value2]) (nextType s)],
                   nextType := ''AND''\<rparr>)
          else Inr s)"

definition whereIn :: "string \<Rightarrow> jsval \<Rightarrow> tq \<Rightarrow> tq" where
  "whereIn col vals s =
     (case vals of
        JArr xs \<Rightarrow>
          if length xs > 0 then
            s\<lparr>conditions := conditions s @ [Simple col ''IN'' vals (nextType s)],
              nextType := ''AND''\<rparr>
          else s
      | _ \<Rightarrow> s)"

definition whereNull :: "string \<Rightarrow> tq \<Rightarrow> tq" where
  "whereNull col s =
     s\<lparr>conditions := conditions s @ [Simple col ''IS NULL'' JUndefined (nextType s)],
       nextType := ''AND''\<rparr>"

definition whereNotNull :: "string \<Rightarrow> tq \<Rightarrow> tq" where
  "whereNotNull col s =
     s\<lparr>conditions := conditions s @ [Simple col ''IS NOT NULL'' JUndefined (nextType s)],
       nextType := ''AND''\<rparr>"

definition join_tq :: "string \<Rightarrow> string \<Rightarrow> string \<Rightarrow> string \<Rightarrow> tq \<Rightarrow> tq" where
  "join_tq t column1 op column2 s =
     s\<lparr>joins := joins s @ [''JOIN '' @ t @ '' ON '' @ column1 @ '' '' @ op @ '' '' @ column2]\<rparr>"

definition leftJoin :: "string \<Rightarrow> string \<Rightarrow> string \<Rightarrow> string \<Rightarrow> tq \<Rightarrow> tq" where
  "leftJoin t column1 op column2 s =
     s\<lparr>joins := joins s
              @ [''LEFT JOIN '' @ t @ '' ON '' @ column1 @ '' '' @ op @ '' '' @ column2]\<rparr>"

definition rightJoin :: "string \<Rightarrow> string \<Rightarrow> string \<Rightarrow> string \<Rightarrow> tq \<Rightarrow> tq" where
  "rightJoin t column1 op column2 s =
     s\<lparr>joins := joins s
              @ [''RIGHT JOIN '' @ t @ '' ON '' @ column1 @ '' '' @ op @ '' '' @ column2]\<rparr>"

text \<open>A direction of \<open>None\<close> is the omitted argument, whose default is \<^verbatim>\<open>ASC\<close>.\<close>

definition orderBy :: "string \<Rightarrow> string option \<Rightarrow> tq \<Rightarrow> error + tq" where
  "orderBy col direction_opt s =
     (let dir = (case direction_opt of None \<Rightarrow> ''ASC'' | Some d \<Rightarrow> d)
      in if toUpperCase dir \<in> set [''ASC'', ''DESC''] then
           Inr (s\<lparr>order_by := order_by s @ [\<lparr>ocolumn = col, direction = toUpperCase dir\<rparr>]\<rparr>)
         else Inl (InvalidDirection dir))"

definition groupBy :: "string \<Rightarrow> tq \<Rightarrow> tq" where
  "groupBy col s = s\<lparr>group_by := group_by s @ [col]\<rparr>"

text \<open>\<^verbatim>\<open>this.query.replace(/^SELECT /, 'SELECT DISTINCT ')\<close>.\<close>

definition replace_leading_select :: "string \<Rightarrow> string" where
  "replace_leading_select q =
     (if prefix ''SELECT '' q then ''SELECT DISTINCT '' @ drop (length ''SELECT '') q else q)"

definition distinct_tq :: "tq \<Rightarrow> tq" where
  "distinct_tq s = s\<lparr>distinct_flag := True, query := replace_leading_select (query s)\<rparr>"

text \<open>A column of \<open>None\<close> is the omitted argument of \<^verbatim>\<open>count\<close>, whose default is \<^verbatim>\<open>*\<close>.\<close>

definition count :: "string option \<Rightarrow> tq \<Rightarrow> tq" where
  "count column_opt s =
     (let col = (case column_opt of None \<Rightarrow> ''*'' | Some c \<Rightarrow> c)
      in s\<lparr>query := ''SELECT COUNT('' @ col @ '') AS count FROM '' @ tableName s\<rparr>)"

definition sum_tq :: "string \<Rightarrow> tq \<Rightarrow> tq" where
  "sum_tq col s =
     s\<lparr>query := ''SELECT SUM('' @ col @ '') AS sum FROM '' @ backticked (tableName s)\<rparr>"

definition avg :: "string \<Rightarrow> tq \<Rightarrow> tq" where
  "avg col s =
     s\<lparr>query := ''SELECT AVG('' @ col @ '') AS avg FROM '' @ backticked (tableName s)\<rparr>"

definition max_tq :: "string \<Rightarrow> tq \<Rightarrow> tq" where
  "max_tq col s =
     s\<lparr>query := ''SELECT MAX('' @ col @ '') AS max FROM '' @ backticked (tableName s)\<rparr>"

definition min_tq :: "string \<Rightarrow> tq \<Rightarrow> tq" where
  "min_tq col s =
     s\<lparr>query := ''SELECT MIN('' @ col @ '') AS min FROM '' @ backticked (tableName s)\<rparr>"



subsection \<open>Assembling the statement\<close>

text \<open>
  \<^verbatim>\<open>buildQuery\<close> appends one clause after the other to a local string. Each
  \<^verbatim>\<open>if\<close> of the source is one definition here, in the order of the source.
\<close>

definition joins_clause :: "tq \<Rightarrow> string" where
  "joins_clause s = (if length (joins s) > 0 then '' '' @ join '' '' (joins s) else [])"

definition where_clause :: "string \<Rightarrow> string" where
  "where_clause whereClauses =
     (if length whereClauses > 0 then '' WHERE '' @ whereClauses else [])"

definition group_clause :: "tq \<Rightarrow> string" where
  "group_clause s =
     (if length (group_by s) > 0 then '' GROUP BY '' @ join '', '' (group_by s) else [])"

definition limit_clause :: "tq \<Rightarrow> string" where
  "limit_clause s =
     (case limitValue s of
        None \<Rightarrow> []
      | Some NaN \<Rightarrow> []
      | Some (Num n) \<Rightarrow> '' LIMIT '' @ show_int n)"

text \<open>
  \<^verbatim>\<open>this.limitValue && ...\<close> holds for a number that is neither zero nor
  \<^verbatim>\<open>NaN\<close>; negative numbers pass.
\<close>

definition offset_clause :: "tq \<Rightarrow> string" where
  "offset_clause s =
     (case (limitValue s, pageValue s) of
        (Some (Num n), Some (Num p)) \<Rightarrow>
          if n \<noteq> 0 then '' OFFSET '' @ show_int ((p - 1) * n) else []
      | _ \<Rightarrow> [])"


definition is_aggregate_text :: "string \<Rightarrow> bool" where
  "is_aggregate_text q \<longleftrightarrow>
     prefix ''SELECT COUNT'' q \<or> prefix ''SELECT SUM'' q \<or> prefix ''SELECT AVG'' q
     \<or> prefix ''SELECT MAX'' q \<or> prefix ''SELECT MIN'' q"

definition order_clause :: "tq \<Rightarrow> string" where
  "order_clause s =
     (if length (order_by s) > 0 \<and> \<not> is_aggregate_text (query s) then
        '' ORDER BY '' @ join '', '' (map (\<lambda>order. ocolumn order @ '' '' @ direction order) (order_by s))
      else [])"

definition buildQuery :: "bool \<Rightarrow> tq \<Rightarrow> error + string" where
  "buildQuery includeSelect s =
     (case buildConditions (conditions s) of
        Inl e \<Rightarrow> Inl e
      | Inr whereClauses \<Rightarrow>
          Inr ((if includeSelect then query s else [])
               @ joins_clause s @ where_clause whereClauses @ group_clause s
               @ limit_clause s @ offset_clause s @ order_clause s))"

section \<open>The executor and the terminal operations\<close>

text \<open>
  The private method \<^verbatim>\<open>#get_response(sql)\<close> is the boundary to the database: the
  check of the pool, \<^verbatim>\<open>pool.query\<close> and the single retry after a missing database
  all happen behind it. The model takes it as a function of the statements handed over so
  far and of the present statement, and records every statement handed over.
  A result is either the rows of a query or the header of a data-changing statement, of
  which only \<^verbatim>\<open>insertId\<close> is read.
\<close>

datatype response = RowSet "jsval list" | ResultHeader int

type_synonym executor = "string list \<Rightarrow> string \<Rightarrow> error + response"

definition get_response :: "executor \<Rightarrow> string \<Rightarrow> string list \<Rightarrow> (error + response) \<times> string list" where
  "get_response ex sql sent = (ex sent sql, sent @ [sql])"

definition get :: "executor \<Rightarrow> tq \<Rightarrow> string list \<Rightarrow> (error + response) \<times> string list" where
  "get ex s sent =
     (case buildQuery True s of
        Inl e \<Rightarrow> (Inl e, sent)
      | Inr sqlQuery \<Rightarrow> get_response ex sqlQuery sent)"

text \<open>\<^verbatim>\<open>result[0] || null\<close>.\<close>

fun first_or_null :: "response \<Rightarrow> jsval" where
  "first_or_null (RowSet []) = JNull"
| "first_or_null (RowSet (r # rs)) = (if truthy r then r else JNull)"
| "first_or_null (ResultHeader i) = JNull"

definition first :: "executor \<Rightarrow> tq \<Rightarrow> string list \<Rightarrow> (error + jsval) \<times> string list" where
  "first ex s sent =
     (case buildQuery True s of
        Inl e \<Rightarrow> (Inl e, sent)
      | Inr sqlQuery \<Rightarrow>
          (case get_response ex sqlQuery sent of
             (Inl e, sent') \<Rightarrow> (Inl e, sent')
           | (Inr result, sent') \<Rightarrow> (Inr (first_or_null result), sent')))"

text \<open>A column of \<open>None\<close> is the omitted argument of \<^verbatim>\<open>find\<close>, whose default is \<^verbatim>\<open>id\<close>.\<close>

definition find_tq ::
  "executor \<Rightarrow> jsval \<Rightarrow> string option \<Rightarrow> tq \<Rightarrow> string list \<Rightarrow> (error + jsval) \<times> tq \<times> string list" where
  "find_tq ex v column_opt s sent =
     (let col = (case column_opt of None \<Rightarrow> ''id'' | Some c \<Rightarrow> c);
          s' = where_tq col (Some ''='') v s
      in case first ex s' sent of (r, sent') \<Rightarrow> (r, s', sent'))"

text \<open>
  \<^verbatim>\<open>typeof item === 'object' && item !== null\<close> holds for plain objects and for
  arrays. \<^verbatim>\<open>Object.keys\<close> of an array are its indices. The pairs of a \<open>JObj\<close> are
  its own properties in the order \<^verbatim>\<open>Object.keys\<close> reports them.
\<close>

fun is_object :: "jsval \<Rightarrow> bool" where
  "is_object (JObj kvs) = True"
| "is_object (JArr xs) = True"
| "is_object v = False"

fun object_keys :: "jsval \<Rightarrow> string list" where
  "object_keys (JObj kvs) = map fst kvs"
| "object_keys (JArr xs) = map show_nat [0..<length xs]"
| "object_keys v = []"

fun object_values :: "jsval \<Rightarrow> jsval list" where
  "object_values (JObj kvs) = map snd kvs"
| "object_values (JArr xs) = xs"
| "object_values v = []"

definition insert_value :: "jsval \<Rightarrow> string" where
  "insert_value v = (if v = JUndefined \<or> v = JNull then ''NULL'' else format_value v)"

definition insert_sql :: "string \<Rightarrow> jsval \<Rightarrow> string" where
  "insert_sql t row =
     ''INSERT INTO '' @ backticked t
     @ '' ('' @ join '', '' (map backticked (object_keys row))
     @ '') VALUES ('' @ join '', '' (map insert_value (object_values row)) @ '')''"

text \<open>\<^verbatim>\<open>result.insertId || 0\<close>; the rows of a query have no \<^verbatim>\<open>insertId\<close>.\<close>

fun insertId_or_0 :: "response \<Rightarrow> jsval" where
  "insertId_or_0 (ResultHeader i) = JNumber (Num (if i \<noteq> 0 then i else 0))"
| "insertId_or_0 (RowSet rs) = JNumber (Num 0)"

text \<open>
  The \<^verbatim>\<open>for (const row of data)\<close> loop of \<^verbatim>\<open>insert\<close>: the builder, the
  statements sent and the rows read so far are threaded through; an exception ends it.
\<close>

fun insert_loop ::
  "executor \<Rightarrow> jsval list \<Rightarrow> tq \<Rightarrow> string list \<Rightarrow> jsval list
   \<Rightarrow> (error + jsval list) \<times> tq \<times> string list" where
  "insert_loop ex [] s sent results = (Inr results, s, sent)"
| "insert_loop ex (row # rows) s sent results =
     (case get_response ex (insert_sql (tableName s) row) sent of
        (Inl e, sent1) \<Rightarrow> (Inl e, s, sent1)
      | (Inr result, sent1) \<Rightarrow>
          (let s1 = where_tq ''id'' (Some ''='') (insertId_or_0 result) s
           in case first ex s1 sent1 of
                (Inl e, sent2) \<Rightarrow> (Inl e, s1, sent2)
              | (Inr insertedRow, sent2) \<Rightarrow>
                  insert_loop ex rows s1 sent2 (results @ [insertedRow])))"

definition insert_tq ::
  "executor \<Rightarrow> jsval \<Rightarrow> tq \<Rightarrow> string list \<Rightarrow> (error + jsval list) \<times> tq \<times> string list" where
  "insert_tq ex data s sent =
     (case data of
        JArr items \<Rightarrow>
          if \<not> list_all is_object items then (Inl InsertRequiresObjects, s, sent)
          else (case insert_loop ex items s sent [] of
                  (Inl e, s', sent') \<Rightarrow> (Inl (InsertFailed e), s', sent')
                | (Inr results, s', sent') \<Rightarrow> (Inr results, s', sent'))
      | _ \<Rightarrow> (Inl InsertRequiresArray, s, sent))"

text \<open>
  \<^verbatim>\<open>typeof data !== 'object' || Array.isArray(data)\<close> lets \<^verbatim>\<open>null\<close> through, on
  which \<^verbatim>\<open>Object.keys\<close> raises.
\<close>

definition update_tq ::
  "executor \<Rightarrow> jsval \<Rightarrow> tq \<Rightarrow> string list \<Rightarrow> (error + response) \<times> string list" where
  "update_tq ex data s sent =
     (case data of
        JObj kvs \<Rightarrow>
          (let updates = join '', '' (map (\<lambda>(key, v). key @ '' = '' @ format_value v) kvs)
           in case buildConditions (conditions s) of
                Inl e \<Rightarrow> (Inl e, sent)
              | Inr whereClauses \<Rightarrow>
                  if length whereClauses = 0 then (Inl UpdateRequiresWhere, sent)
                  else get_response ex
                         (''UPDATE '' @ backticked (tableName s) @ '' SET '' @ updates
                          @ '' WHERE '' @ whereClauses) sent)
      | JNull \<Rightarrow> (Inl TypeError, sent)
      | _ \<Rightarrow> (Inl UpdateRequiresObject, sent))"

definition delete_tq ::
  "executor \<Rightarrow> tq \<Rightarrow> string list \<Rightarrow> (error + response) \<times> string list" where
  "delete_tq ex s sent =
     (case buildConditions (conditions s) of
        Inl e \<Rightarrow> (Inl e, sent)
      | Inr whereClauses \<Rightarrow>
          if length whereClauses = 0 then (Inl DeleteRequiresWhere, sent)
          else get_response ex
                 (''DELETE FROM '' @ backticked (tableName s) @ '' WHERE '' @ whereClauses) sent)"

section \<open>Table and column definitions\<close>

text \<open>
  The interface \<^verbatim>\<open>Field\<close>. The fields \<^verbatim>\<open>type\<close> and \<^verbatim>\<open>length\<close> are
  \<open>ftype\<close> and \<open>flength\<close>. An optional field that is absent is \<open>None\<close>, an absent
  \<^verbatim>\<open>defaultValue\<close> is \<open>JUndefined\<close>; the documentation passes numbers as well as
  strings for it. \<^verbatim>\<open>foreing\<close> is the pair of its \<^verbatim>\<open>table\<close> and
  \<^verbatim>\<open>column\<close>.
\<close>

record field =
  name :: string
  ftype :: string
  defaultValue :: jsval
  flength :: "jsnum option"
  options :: "string list option"
  foreing :: "(string \<times> string) option"

text \<open>\<^verbatim>\<open>length && ...\<close> and the \<^verbatim>\<open>${length}\<close> that follows it.\<close>

fun length_truthy :: "jsnum option \<Rightarrow> bool" where
  "length_truthy None = False"
| "length_truthy (Some n) = truthy (JNumber n)"

fun length_text :: "jsnum option \<Rightarrow> string" where
  "length_text None = ''undefined''"
| "length_text (Some n) = show_num n"

text \<open>The block \<^verbatim>\<open>if (options) { ... }\<close>, the same text in all three methods.\<close>

definition options_clause :: "string list option \<Rightarrow> string" where
  "options_clause opts =
     (case opts of
        None \<Rightarrow> []
      | Some os \<Rightarrow>
          (if ''primary'' \<in> set os then '' PRIMARY KEY'' else [])
          @ (if ''autoincrement'' \<in> set os then '' AUTO_INCREMENT'' else [])
          @ (if ''unique'' \<in> set os then '' UNIQUE'' else []))"

subsection \<open>\<^verbatim>\<open>TableQuery.create\<close>\<close>

definition create_column :: "field \<Rightarrow> string" where
  "create_column f =
     (if length_truthy (flength f) \<and> ftype f \<noteq> ''text'' then
        backticked (name f) @ '' '' @ ftype f @ ''('' @ length_text (flength f) @ '')''
      else backticked (name f) @ '' '' @ ftype f)"

definition create_default :: "field \<Rightarrow> string" where
  "create_default f =
     (if truthy (defaultValue f) then
        (if toUpperCase (ftype f) \<in> set [''VARCHAR'', ''CHAR'', ''TEXT'', ''ENUM'', ''SET''] then
           (if truthy (defaultValue f) then '' DEFAULT '' @ quoted (js_string (defaultValue f))
            else '' DEFAULT NULL'')
         else if defaultValue f = JStr ''NONE'' \<or> defaultValue f = JNull then []
         else (if truthy (defaultValue f) then '' DEFAULT '' @ js_string (defaultValue f)
               else '' DEFAULT NULL''))
      else [])"

definition create_foreign :: "field \<Rightarrow> string" where
  "create_foreign f =
     (case foreing f of
        None \<Rightarrow> []
      | Some (t, c) \<Rightarrow>
          '', FOREIGN KEY ('' @ backticked (name f) @ '') REFERENCES '' @ backticked t
          @ ''('' @ backticked c @ '')'')"

definition create_fieldDefinition :: "field \<Rightarrow> error + string" where
  "create_fieldDefinition f =
     (if name f = [] \<or> ftype f = [] then Inl FieldWithoutNameOrType
      else Inr (create_column f @ create_default f @ options_clause (options f)
                @ create_foreign f))"

definition create ::
  "executor \<Rightarrow> field list \<Rightarrow> tq \<Rightarrow> string list \<Rightarrow> (error + bool) \<times> string list" where
  "create ex fs s sent =
     (case collect (map create_fieldDefinition fs) of
        Inl e \<Rightarrow> (Inl e, sent)
      | Inr defs \<Rightarrow>
          (case get_response ex
                  (''CREATE TABLE IF NOT EXISTS '' @ backticked (tableName s)
                   @ '' ('' @ join '', '' defs @ '')'') sent of
             (Inl e, sent') \<Rightarrow> (Inl e, sent')
           | (Inr result, sent') \<Rightarrow> (Inr True, sent')))"

subsection \<open>\<^verbatim>\<open>Columns.add\<close> and \<^verbatim>\<open>Columns.edit\<close>\<close>

text \<open>
  What \<^verbatim>\<open>Columns.get\<close> reports of a live column: \<^verbatim>\<open>type\<close>,
  \<^verbatim>\<open>defaultValue\<close> (a string or \<^verbatim>\<open>null\<close>), \<^verbatim>\<open>key\<close> and \<^verbatim>\<open>extra\<close>.
  The statement texts below are those the two methods build for one field: \<^verbatim>\<open>add\<close>
  for a field it finds no live column for, \<^verbatim>\<open>edit\<close> for a field and the live column
  \<open>existingField\<close> it has found. The loops over the fields and the lookup in the result
  of \<^verbatim>\<open>Columns.get\<close> are not modelled.
\<close>

record column_meta =
  live_type :: string
  live_default :: "string option"
  live_key :: string
  live_extra :: string

definition fullType :: "field \<Rightarrow> string" where
  "fullType f =
     (if length_truthy (flength f) \<and> ftype f \<noteq> ''TEXT'' then
        ftype f @ ''('' @ length_text (flength f) @ '')''
      else ftype f)"

definition add_default :: "field \<Rightarrow> string" where
  "add_default f =
     (if truthy (defaultValue f) then
        (if ftype f \<in> set [''varchar'', ''char'', ''text'', ''enum'', ''set''] then
           (if truthy (defaultValue f) then '' DEFAULT '' @ quoted (js_string (defaultValue f))
            else '' DEFAULT NULL'')
         else if defaultValue f = JStr ''NONE'' \<or> defaultValue f = JNull then []
         else (if truthy (defaultValue f) then '' DEFAULT '' @ js_string (defaultValue f)
               else '' DEFAULT NULL''))
      else [])"

definition alter_foreign :: "field \<Rightarrow> string" where
  "alter_foreign f =
     (case foreing f of
        None \<Rightarrow> []
      | Some (t, c) \<Rightarrow>
          '', ADD FOREIGN KEY ('' @ backticked (name f) @ '') REFERENCES '' @ backticked t
          @ ''('' @ backticked c @ '')'')"

definition add_alterQuery :: "string \<Rightarrow> field \<Rightarrow> string" where
  "add_alterQuery t f =
     ''ALTER TABLE '' @ backticked t @ '' ADD COLUMN '' @ backticked (name f) @ '' '' @ fullType f
     @ add_default f @ options_clause (options f) @ alter_foreign f"

text \<open>
  \<^verbatim>\<open>existingField.defaultValue !== defaultValue\<close>: the live default is a string or
  \<^verbatim>\<open>null\<close>, and strict equality holds only between equal strings or two nulls.
\<close>

definition default_differs :: "column_meta \<Rightarrow> field \<Rightarrow> bool" where
  "default_differs existingField f =
     (case live_default existingField of
        None \<Rightarrow> defaultValue f \<noteq> JNull
      | Some d \<Rightarrow> defaultValue f \<noteq> JStr d)"

definition edit_default :: "column_meta \<Rightarrow> field \<Rightarrow> string" where
  "edit_default existingField f =
     (if default_differs existingField f then
        (if ftype f \<in> set [''varchar'', ''char'', ''text'', ''enum'', ''set''] then
           (if truthy (defaultValue f) then '' DEFAULT '' @ quoted (js_string (defaultValue f))
            else '' DEFAULT NULL'')
         else if defaultValue f = JStr ''NONE'' \<or> defaultValue f = JNull then []
         else (if truthy (defaultValue f) then '' DEFAULT '' @ js_string (defaultValue f)
               else '' DEFAULT NULL''))
      else [])"

definition edit_modifyQuery :: "string \<Rightarrow> column_meta \<Rightarrow> field \<Rightarrow> string" where
  "edit_modifyQuery t existingField f =
     ''ALTER TABLE '' @ backticked t @ '' MODIFY COLUMN '' @ backticked (name f) @ '' '' @ fullType f
     @ edit_default existingField f @ options_clause (options f) @ alter_foreign f"

subsection \<open>A database for the examples\<close>

text \<open>
  The examples below run the terminal operations against this executor: an
  \<^verbatim>\<open>INSERT\<close> is answered by a header whose \<^verbatim>\<open>insertId\<close> is one more than the
  number of statements seen before, any other statement by one row that records that
  number.
\<close>

definition demo_executor :: executor where
  "demo_executor h q =
     (if prefix ''INSERT'' q then Inr (ResultHeader (int (length h) + 1))
      else Inr (RowSet [JObj [(''seen'', JNumber (Num (int (length h))))]]))"

section \<open>Evaluation of number texts\<close>

lemmas show_int_eval = show_int_def show_nat.simps digit_char_def

lemmas clause_defs =
  joins_clause_def where_clause_def group_clause_def limit_clause_def offset_clause_def
  order_clause_def is_aggregate_text_def

section \<open>Compilation of condition sequences\<close>

lemma collect_map_Inr:
  "\<forall>x\<in>set xs. f x = Inr (g x) \<Longrightarrow> collect (map f xs) = Inr (map g xs)"
  by (induction xs) auto

lemma collect_Inr_iff:
  "(\<exists>ys. collect rs = Inr ys) \<longleftrightarrow> (\<forall>r\<in>set rs. \<exists>y. r = Inr y)"
proof (induction rs)
  case Nil
  show ?case by simp
next
  case (Cons r rs)
  show ?case
  proof (cases r)
    case (Inl e)
    then show ?thesis by auto
  next
    case (Inr y)
    with Cons show ?thesis by (auto split: sum.splits)
  qed
qed

lemma fragments_later:
  "0 < n \<Longrightarrow> map (\<lambda>(index, cond). cond_fragment index cond) (enumerate n cs)
     = map (cond_fragment (Suc 0)) cs"
  by (induction cs arbitrary: n) (simp_all add: cond_fragment_def)

lemma fragments_split:
  "map (\<lambda>(index, cond). cond_fragment index cond) (enumerate 0 (c # cs))
     = cond_fragment 0 c # map (cond_fragment (Suc 0)) cs"
  using fragments_later [of "Suc 0" cs] by simp

lemma cond_fragment_Inr_iff:
  "(\<exists>s. cond_fragment n c = Inr s) \<longleftrightarrow> (\<exists>b. conditionStr c = Inr b)"
  by (auto simp: cond_fragment_def Let_def split: sum.splits)

lemma buildConditions_Nil: "buildConditions [] = Inr []"
  by (simp add: buildConditions_def)

lemma buildConditions_Inr_iff:
  "(\<exists>w. buildConditions cs = Inr w) \<longleftrightarrow> (\<forall>d\<in>set cs. \<exists>b. conditionStr d = Inr b)"
proof (cases cs)
  case Nil
  then show ?thesis by (simp add: buildConditions_def)
next
  case (Cons c ds)
  have "(\<exists>w. buildConditions cs = Inr w)
        \<longleftrightarrow> (\<exists>ys. collect (cond_fragment 0 c # map (cond_fragment (Suc 0)) ds) = Inr ys)"
    unfolding buildConditions_def Cons fragments_split by (auto split: sum.splits)
  also have "\<dots> \<longleftrightarrow> (\<forall>r\<in>set (cond_fragment 0 c # map (cond_fragment (Suc 0)) ds). \<exists>y. r = Inr y)"
    by (rule collect_Inr_iff)
  also have "\<dots> \<longleftrightarrow> (\<forall>d\<in>set cs. \<exists>b. conditionStr d = Inr b)"
    using cond_fragment_Inr_iff by (simp add: Cons)
  finally show ?thesis .
qed

lemma buildConditions_Cons:
  assumes ok: "\<forall>d\<in>set (c # cs). conditionStr d = Inr (body d)"
  shows "buildConditions (c # cs)
          = Inr (body c @ concat (map (\<lambda>d. '' '' @ ctype d @ '' '' @ body d) cs))"
proof -
  have first: "cond_fragment 0 c = Inr (body c)"
    using ok by (simp add: cond_fragment_def)
  have rest: "\<forall>d\<in>set cs. cond_fragment (Suc 0) d = Inr ('' '' @ ctype d @ '' '' @ body d)"
    using ok by (simp add: cond_fragment_def)
  have "collect (map (cond_fragment (Suc 0)) cs)
          = Inr (map (\<lambda>d. '' '' @ ctype d @ '' '' @ body d) cs)"
    using rest by (rule collect_map_Inr)
  then show ?thesis
    unfolding buildConditions_def fragments_split by (simp add: first)
qed

text \<open>
  Claim C5. The empty sequence compiles to the empty string. In a sequence all of whose
  conditions have a body (\<open>body d\<close> is the text of condition \<open>d\<close> without prefix), the
  first body stands without prefix, and every later condition \<open>d\<close> contributes a blank,
  its own combinator \<open>ctype d\<close>, a blank, and its body. The body of a group is its inner
  fragment in parentheses.
\<close>

theorem buildConditions_prefix_rule:
  "buildConditions [] = Inr []
   \<and> ((\<forall>d\<in>set (c # cs). conditionStr d = Inr (body d)) \<longrightarrow>
        buildConditions (c # cs)
          = Inr (body c @ concat (map (\<lambda>d. '' '' @ ctype d @ '' '' @ body d) cs)))
   \<and> conditionStr (Group q t) = Inr (''('' @ q @ '')'')"
  using buildConditions_Cons [of c cs body] by (simp add: buildConditions_Nil)

theorem buildConditions_prefix_rule_witness:
  "buildConditions
     [Simple ''age'' ''>'' (JNumber (Num 25)) ''AND'',
      Simple ''name'' ''='' (JStr ''Jane'') ''OR'',
      Group ''a = 1 OR b = 2'' ''AND'']
   = Inr (''age > 25 OR name = 'Jane' AND (a = 1 OR b = 2)'')"
proof -
  let ?c = "Simple ''age'' ''>'' (JNumber (Num 25)) ''AND''"
  let ?cs = "[Simple ''name'' ''='' (JStr ''Jane'') ''OR'', Group ''a = 1 OR b = 2'' ''AND'']"
  let ?body = "\<lambda>d. case conditionStr d of Inr b \<Rightarrow> b | Inl e \<Rightarrow> []"
  have ok: "\<forall>d\<in>set (?c # ?cs). conditionStr d = Inr (?body d)"
    by simp
  from buildConditions_prefix_rule [of ?c ?cs ?body] ok
  have "buildConditions (?c # ?cs)
          = Inr (?body ?c @ concat (map (\<lambda>d. '' '' @ ctype d @ '' '' @ ?body d) ?cs))"
    by blast
  then show ?thesis
    by (simp add: quoted_def show_int_eval)
qed

section \<open>The pending combinator\<close>

text \<open>
  Claim C6. \<^verbatim>\<open>where\<close> appends one condition that carries the pending combinator and
  resets the pending combinator to \<^verbatim>\<open>AND\<close>; \<^verbatim>\<open>orWhere\<close> appends one condition that
  carries \<^verbatim>\<open>OR\<close> and leaves the pending combinator as it was. A fresh builder has
  \<^verbatim>\<open>AND\<close> pending, \<^verbatim>\<open>or()\<close> and \<^verbatim>\<open>and()\<close> set it. So after \<^verbatim>\<open>or()\<close> the next
  \<^verbatim>\<open>where\<close> carries \<^verbatim>\<open>OR\<close> and the one after it \<^verbatim>\<open>AND\<close>, and an \<^verbatim>\<open>orWhere\<close>
  in between does not use the pending \<^verbatim>\<open>OR\<close> up. Neither call changes any other
  field of the builder.
\<close>

theorem pending_combinator_rule:
  "conditions (where_tq col op v s)
     = conditions s @ [Simple col (case op of None \<Rightarrow> ''='' | Some x \<Rightarrow> x) v (nextType s)]
   \<and> nextType (where_tq col op v s) = ''AND''
   \<and> (where_tq col op v s)\<lparr>conditions := conditions s, nextType := nextType s\<rparr> = s
   \<and> conditions (orWhere col op v s)
     = conditions s @ [Simple col (case op of None \<Rightarrow> ''='' | Some x \<Rightarrow> x) v ''OR'']
   \<and> nextType (orWhere col op v s) = nextType s
   \<and> (orWhere col op v s)\<lparr>conditions := conditions s\<rparr> = s
   \<and> nextType (TableQuery t) = ''AND''
   \<and> nextType (or_tq s) = ''OR''
   \<and> nextType (and_tq s) = ''AND''
   \<and> conditions (or_tq s) = conditions s
   \<and> conditions (and_tq s) = conditions s
   \<and> map ctype (conditions (where_tq col2 op2 v2 (where_tq col op v (or_tq s))))
     = map ctype (conditions s) @ [''OR'', ''AND'']
   \<and> map ctype (conditions (where_tq col2 op2 v2 (orWhere col op v (or_tq s))))
     = map ctype (conditions s) @ [''OR'', ''OR'']
   \<and> map ctype (conditions (where_tq col2 op2 v2 (orWhere col op v (and_tq s))))
     = map ctype (conditions s) @ [''OR'', ''AND'']"
proof -
  have appended:
    "conditions (where_tq col op v s)
       = conditions s @ [Simple col (case op of None \<Rightarrow> ''='' | Some x \<Rightarrow> x) v (nextType s)]"
    "conditions (orWhere col op v s)
       = conditions s @ [Simple col (case op of None \<Rightarrow> ''='' | Some x \<Rightarrow> x) v ''OR'']"
    by (simp_all add: where_tq_def orWhere_def Let_def)
  have pending:
    "nextType (where_tq col op v s) = ''AND''"
    "nextType (orWhere col op v s) = nextType s"
    "nextType (TableQuery t) = ''AND''"
    "nextType (or_tq s) = ''OR''"
    "nextType (and_tq s) = ''AND''"
    by (simp_all add: where_tq_def orWhere_def or_tq_def and_tq_def TableQuery_def Let_def)
  have frame:
    "(where_tq col op v s)\<lparr>conditions := conditions s, nextType := nextType s\<rparr> = s"
    "(orWhere col op v s)\<lparr>conditions := conditions s\<rparr> = s"
    "conditions (or_tq s) = conditions s"
    "conditions (and_tq s) = conditions s"
    by (simp_all add: where_tq_def orWhere_def or_tq_def and_tq_def Let_def)
  have chained:
    "map ctype (conditions (where_tq col2 op2 v2 (where_tq col op v (or_tq s))))
       = map ctype (conditions s) @ [''OR'', ''AND'']"
    "map ctype (conditions (where_tq col2 op2 v2 (orWhere col op v (or_tq s))))
       = map ctype (conditions s) @ [''OR'', ''OR'']"
    "map ctype (conditions (where_tq col2 op2 v2 (orWhere col op v (and_tq s))))
       = map ctype (conditions s) @ [''OR'', ''AND'']"
    by (simp_all add: where_tq_def orWhere_def or_tq_def and_tq_def Let_def)
  from appended pending frame chained show ?thesis
    by simp
qed

section \<open>Repeated \<^verbatim>\<open>distinct()\<close>\<close>

text \<open>
  Claim C3. The claim is that two calls of \<^verbatim>\<open>distinct()\<close> leave exactly one
  \<^verbatim>\<open>DISTINCT\<close> in the base clause. \<^verbatim>\<open>distinct()\<close> rewrites the leading
  \<^verbatim>\<open>SELECT\<close> at every call, without looking at the flag it has set, so the second call
  on a fresh builder of table \<^verbatim>\<open>users\<close> gives two; a \<^verbatim>\<open>select\<close> that follows builds
  the clause anew, with one.
\<close>

theorem distinct_twice_two_tokens:
  "query (distinct_tq (distinct_tq (TableQuery ''users'')))
     = ''SELECT DISTINCT DISTINCT * FROM `users`''
   \<and> query (select [''name''] (distinct_tq (distinct_tq (TableQuery ''users''))))
     = ''SELECT DISTINCT name FROM `users`''"
  by (simp add: distinct_tq_def select_def TableQuery_def replace_leading_select_def
        backticked_def)

section \<open>The length suffix of a column type\<close>

text \<open>
  Claim C4. The claim is that a text type, in any letter case, gets no length suffix in
  \<^verbatim>\<open>create\<close> and in \<^verbatim>\<open>Columns.add\<close>. \<^verbatim>\<open>create\<close> compares the type with the
  lower-case word \<^verbatim>\<open>text\<close> only, \<^verbatim>\<open>Columns.add\<close> with the upper-case word
  \<^verbatim>\<open>TEXT\<close> only: each writes the suffix for the spelling the other one leaves bare.
\<close>

theorem text_length_suffix_by_spelling:
  "create_fieldDefinition
     \<lparr>name = ''bio'', ftype = ''TEXT'', defaultValue = JUndefined, flength = Some (Num 10),
      options = None, foreing = None\<rparr>
     = Inr ''`bio` TEXT(10)''
   \<and> create_fieldDefinition
     \<lparr>name = ''bio'', ftype = ''text'', defaultValue = JUndefined, flength = Some (Num 10),
      options = None, foreing = None\<rparr>
     = Inr ''`bio` text''
   \<and> add_alterQuery ''users''
     \<lparr>name = ''bio'', ftype = ''text'', defaultValue = JUndefined, flength = Some (Num 10),
      options = None, foreing = None\<rparr>
     = ''ALTER TABLE `users` ADD COLUMN `bio` text(10)''
   \<and> add_alterQuery ''users''
     \<lparr>name = ''bio'', ftype = ''TEXT'', defaultValue = JUndefined, flength = Some (Num 10),
      options = None, foreing = None\<rparr>
     = ''ALTER TABLE `users` ADD COLUMN `bio` TEXT''"
  by (simp add: create_fieldDefinition_def create_column_def create_default_def
        options_clause_def create_foreign_def add_alterQuery_def fullType_def add_default_def
        alter_foreign_def backticked_def show_int_eval)

section \<open>Ordering and aggregates\<close>

text \<open>
  Claim C8. The claim is that \<^verbatim>\<open>ORDER BY\<close> is left out exactly for the aggregate
  queries. \<^verbatim>\<open>buildQuery\<close> decides by the first letters of the base clause. A plain
  selection of a column named \<^verbatim>\<open>COUNTRY\<close> begins with \<^verbatim>\<open>SELECT COUNT\<close> and loses its
  \<^verbatim>\<open>ORDER BY\<close>; a count made distinct begins with \<^verbatim>\<open>SELECT DISTINCT\<close> and keeps it.
\<close>

theorem order_by_decided_by_text:
  "(case orderBy ''name'' (Some ''asc'') (select [''COUNTRY''] (TableQuery ''users'')) of
      Inl e \<Rightarrow> Inl e
    | Inr s \<Rightarrow> buildQuery True s)
     = Inr ''SELECT COUNTRY FROM `users`''
   \<and> (case orderBy ''name'' (Some ''asc'') (distinct_tq (count None (TableQuery ''users''))) of
      Inl e \<Rightarrow> Inl e
    | Inr s \<Rightarrow> buildQuery True s)
     = Inr ''SELECT DISTINCT COUNT(*) AS count FROM users ORDER BY name ASC''"
  by (simp add: orderBy_def select_def count_def distinct_tq_def replace_leading_select_def
        TableQuery_def buildQuery_def buildConditions_def clause_defs backticked_def
        toUpperCase_def toUpperCase_char_def Let_def)

text \<open>
  Directly after one of the five aggregate calls the base clause begins with the word the
  test looks for, and no \<^verbatim>\<open>ORDER BY\<close> is written; on a fresh builder every order
  spec is written, in call order.
\<close>

lemma aggregate_call_suppresses_order:
  "order_clause (count c s) = [] \<and> order_clause (sum_tq col s) = []
   \<and> order_clause (avg col s) = [] \<and> order_clause (max_tq col s) = []
   \<and> order_clause (min_tq col s) = []"
  by (simp add: order_clause_def is_aggregate_text_def count_def sum_tq_def avg_def max_tq_def
        min_tq_def Let_def)

lemma fresh_builder_orders:
  "order_clause ((TableQuery t)\<lparr>order_by := os\<rparr>)
     = (if os = [] then []
        else '' ORDER BY '' @ join '', '' (map (\<lambda>order. ocolumn order @ '' '' @ direction order) os))"
  by (simp add: order_clause_def is_aggregate_text_def TableQuery_def)

section \<open>The guard of \<^verbatim>\<open>update\<close> and \<^verbatim>\<open>delete\<close>\<close>

lemma conditionStr_nonempty: "conditionStr c = Inr b \<Longrightarrow> b \<noteq> []"
  by (cases c) (auto split: if_splits sum.splits jsval.splits)

lemma buildConditions_nonempty:
  assumes "cs \<noteq> []" and "buildConditions cs = Inr w"
  shows "w \<noteq> []"
proof -
  obtain c ds where cs: "cs = c # ds"
    using assms(1) by (cases cs) auto
  from assms(2) have "\<forall>d\<in>set cs. \<exists>b. conditionStr d = Inr b"
    using buildConditions_Inr_iff [of cs] by blast
  then have ok: "\<forall>d\<in>set (c # ds). conditionStr d = Inr (case conditionStr d of Inr b \<Rightarrow> b | Inl e \<Rightarrow> [])"
    unfolding cs by auto
  have "conditionStr c = Inr (case conditionStr c of Inr b \<Rightarrow> b | Inl e \<Rightarrow> [])"
    using ok by simp
  then have "(case conditionStr c of Inr b \<Rightarrow> b | Inl e \<Rightarrow> []) \<noteq> []"
    by (rule conditionStr_nonempty)
  with buildConditions_Cons [OF ok] assms(2) show ?thesis
    unfolding cs by auto
qed

text \<open>
  Claim C7. On a builder without conditions \<^verbatim>\<open>update\<close> (given a patch object) and
  \<^verbatim>\<open>delete\<close> raise their error and hand no statement to the executor. With at least
  one condition the compiled fragment is never empty, so that error is not raised, and where
  the sequence compiles to \<open>w\<close> the one statement with \<^verbatim>\<open>WHERE w\<close> is handed to
  the executor, whose answer is the result.
\<close>

theorem update_delete_require_where:
  "(conditions s = [] \<longrightarrow>
      update_tq ex (JObj kvs) s sent = (Inl UpdateRequiresWhere, sent)
      \<and> delete_tq ex s sent = (Inl DeleteRequiresWhere, sent))
   \<and> (conditions s \<noteq> [] \<longrightarrow> buildConditions (conditions s) \<noteq> Inr [])
   \<and> (conditions s \<noteq> [] \<and> buildConditions (conditions s) = Inr w \<longrightarrow>
        update_tq ex (JObj kvs) s sent
          = (ex sent (''UPDATE '' @ backticked (tableName s) @ '' SET ''
                      @ join '', '' (map (\<lambda>(key, v). key @ '' = '' @ format_value v) kvs)
                      @ '' WHERE '' @ w),
             sent @ [''UPDATE '' @ backticked (tableName s) @ '' SET ''
                      @ join '', '' (map (\<lambda>(key, v). key @ '' = '' @ format_value v) kvs)
                      @ '' WHERE '' @ w])
        \<and> delete_tq ex s sent
          = (ex sent (''DELETE FROM '' @ backticked (tableName s) @ '' WHERE '' @ w),
             sent @ [''DELETE FROM '' @ backticked (tableName s) @ '' WHERE '' @ w]))"
proof (intro conjI impI)
  assume "conditions s = []"
  then show "update_tq ex (JObj kvs) s sent = (Inl UpdateRequiresWhere, sent)"
    by (simp add: update_tq_def buildConditions_Nil)
next
  assume "conditions s = []"
  then show "delete_tq ex s sent = (Inl DeleteRequiresWhere, sent)"
    by (simp add: delete_tq_def buildConditions_Nil)
next
  assume "conditions s \<noteq> []"
  then show "buildConditions (conditions s) \<noteq> Inr []"
    using buildConditions_nonempty by blast
next
  assume a: "conditions s \<noteq> [] \<and> buildConditions (conditions s) = Inr w"
  then have "w \<noteq> []"
    using buildConditions_nonempty by blast
  with a show "update_tq ex (JObj kvs) s sent
          = (ex sent (''UPDATE '' @ backticked (tableName s) @ '' SET ''
                      @ join '', '' (map (\<lambda>(key, v). key @ '' = '' @ format_value v) kvs)
                      @ '' WHERE '' @ w),
             sent @ [''UPDATE '' @ backticked (tableName s) @ '' SET ''
                      @ join '', '' (map (\<lambda>(key, v). key @ '' = '' @ format_value v) kvs)
                      @ '' WHERE '' @ w])"
    by (simp add: update_tq_def get_response_def Let_def)
next
  assume a: "conditions s \<noteq> [] \<and> buildConditions (conditions s) = Inr w"
  then have "w \<noteq> []"
    using buildConditions_nonempty by blast
  with a show "delete_tq ex s sent
          = (ex sent (''DELETE FROM '' @ backticked (tableName s) @ '' WHERE '' @ w),
             sent @ [''DELETE FROM '' @ backticked (tableName s) @ '' WHERE '' @ w])"
    by (simp add: delete_tq_def get_response_def)
qed

lemma buildConditions_single_eval:
  "buildConditions [Simple ''id'' ''='' (JNumber (Num 1)) ''AND''] = Inr ''id = 1''"
  by (simp add: buildConditions_def cond_fragment_def show_int_eval)

theorem update_delete_require_where_witness:
  "update_tq (\<lambda>h q. Inr (ResultHeader 0)) (JObj [(''name'', JStr ''Al''), (''age'', JNumber (Num 30))])
      (TableQuery ''users'') []
     = (Inl UpdateRequiresWhere, [])
   \<and> delete_tq (\<lambda>h q. Inr (ResultHeader 0)) (TableQuery ''users'') [] = (Inl DeleteRequiresWhere, [])
   \<and> update_tq (\<lambda>h q. Inr (ResultHeader 0)) (JObj [(''name'', JStr ''Al''), (''age'', JNumber (Num 30))])
      (where_tq ''id'' None (JNumber (Num 1)) (TableQuery ''users'')) []
     = (Inr (ResultHeader 0), [''UPDATE `users` SET name = 'Al', age = 30 WHERE id = 1''])
   \<and> delete_tq (\<lambda>h q. Inr (ResultHeader 0))
      (where_tq ''id'' None (JNumber (Num 1)) (TableQuery ''users'')) []
     = (Inr (ResultHeader 0), [''DELETE FROM `users` WHERE id = 1''])"
proof -
  let ?ex = "\<lambda>(h::string list) (q::string). Inr (ResultHeader 0) :: error + response"
  let ?kvs = "[(''name'', JStr ''Al''), (''age'', JNumber (Num 30))]"
  let ?s0 = "TableQuery ''users''"
  let ?s1 = "where_tq ''id'' None (JNumber (Num 1)) (TableQuery ''users'')"
  have e0: "conditions ?s0 = []"
    by (simp add: TableQuery_def)
  have c1: "conditions ?s1 = [Simple ''id'' ''='' (JNumber (Num 1)) ''AND'']"
    by (simp add: where_tq_def TableQuery_def)
  have e1: "conditions ?s1 \<noteq> [] \<and> buildConditions (conditions ?s1) = Inr ''id = 1''"
    by (simp add: c1 buildConditions_single_eval)
  have t: "tableName ?s1 = ''users''"
    by (simp add: where_tq_def TableQuery_def)
  from update_delete_require_where [of ?s0 ?ex ?kvs "[]" "[]"] e0
  have a: "update_tq ?ex (JObj ?kvs) ?s0 [] = (Inl UpdateRequiresWhere, [])
           \<and> delete_tq ?ex ?s0 [] = (Inl DeleteRequiresWhere, [])"
    by blast
  from update_delete_require_where [of ?s1 ?ex ?kvs "[]" "''id = 1''"] e1
  have b: "update_tq ?ex (JObj ?kvs) ?s1 []
          = (?ex [] (''UPDATE '' @ backticked (tableName ?s1) @ '' SET ''
                      @ join '', '' (map (\<lambda>(key, v). key @ '' = '' @ format_value v) ?kvs)
                      @ '' WHERE '' @ ''id = 1''),
             [] @ [''UPDATE '' @ backticked (tableName ?s1) @ '' SET ''
                      @ join '', '' (map (\<lambda>(key, v). key @ '' = '' @ format_value v) ?kvs)
                      @ '' WHERE '' @ ''id = 1''])
        \<and> delete_tq ?ex ?s1 []
          = (?ex [] (''DELETE FROM '' @ backticked (tableName ?s1) @ '' WHERE '' @ ''id = 1''),
             [] @ [''DELETE FROM '' @ backticked (tableName ?s1) @ '' WHERE '' @ ''id = 1''])"
    by blast
  from a b show ?thesis
    by (simp add: t backticked_def quoted_def show_int_eval)
qed

section \<open>Limit and offset\<close>




section \<open>The default clause\<close>





text \<open>
  \<^verbatim>\<open>Columns.add\<close> compares the type as written with the lower-case names, so the
  upper-case \<^verbatim>\<open>VARCHAR\<close> of the documented example gets its default unquoted.
\<close>

lemma add_upper_case_text_type_unquoted:
  "add_alterQuery ''users'' \<lparr>name = ''email'', ftype = ''VARCHAR'', defaultValue = JStr ''new@example.com'',
       flength = Some (Num 255), options = None, foreing = None\<rparr>
       = ''ALTER TABLE `users` ADD COLUMN `email` VARCHAR(255) DEFAULT new@example.com''"
  by (simp add: add_alterQuery_def fullType_def add_default_def options_clause_def
        alter_foreign_def backticked_def show_int_eval)

section \<open>The loop of \<^verbatim>\<open>insert\<close>\<close>

lemma where_tq_fields:
  "conditions (where_tq col op v s)
     = conditions s @ [Simple col (case op of None \<Rightarrow> ''='' | Some x \<Rightarrow> x) v (nextType s)]"
  "tableName (where_tq col op v s) = tableName s"
  "nextType (where_tq col op v s) = ''AND''"
  by (simp_all add: where_tq_def Let_def)

lemma buildQuery_where_tq_conditions:
  "buildQuery b ((where_tq col op v s)\<lparr>conditions := cs\<rparr>) = buildQuery b (s\<lparr>conditions := cs\<rparr>)"
  by (simp add: where_tq_def Let_def buildQuery_def clause_defs split: sum.splits)

lemma insert_loop_Cons_Inr:
  assumes "insert_loop ex (row # rows) s sent acc = (Inr res, s', sent')"
  shows "\<exists>r q rr.
           ex sent (insert_sql (tableName s) row) = Inr r
           \<and> buildQuery True (where_tq ''id'' (Some ''='') (insertId_or_0 r) s) = Inr q
           \<and> ex (sent @ [insert_sql (tableName s) row]) q = Inr rr
           \<and> insert_loop ex rows (where_tq ''id'' (Some ''='') (insertId_or_0 r) s)
                (sent @ [insert_sql (tableName s) row, q]) (acc @ [first_or_null rr])
               = (Inr res, s', sent')"
  using assms
  by (auto simp: first_def get_response_def Let_def split: sum.splits prod.splits)

lemma insert_loop_extends:
  "insert_loop ex rows s sent acc = (Inr res, s', sent') \<Longrightarrow>
     \<exists>cx sx rx. conditions s' = conditions s @ cx \<and> length cx = length rows
        \<and> sent' = sent @ sx \<and> length sx = 2 * length rows
        \<and> res = acc @ rx \<and> length rx = length rows"
proof (induction rows arbitrary: s sent acc)
  case Nil
  then show ?case by simp
next
  case (Cons row rows)
  from insert_loop_Cons_Inr [OF Cons.prems] obtain r q rr where
    run: "insert_loop ex rows (where_tq ''id'' (Some ''='') (insertId_or_0 r) s)
            (sent @ [insert_sql (tableName s) row, q]) (acc @ [first_or_null rr])
           = (Inr res, s', sent')"
    by blast
  from Cons.IH [OF run] obtain cx sx rx where
    ih: "conditions s' = conditions (where_tq ''id'' (Some ''='') (insertId_or_0 r) s) @ cx"
        "length cx = length rows"
        "sent' = (sent @ [insert_sql (tableName s) row, q]) @ sx" "length sx = 2 * length rows"
        "res = (acc @ [first_or_null rr]) @ rx" "length rx = length rows"
    by blast
  show ?case
  proof (intro exI conjI)
    show "conditions s' = conditions s @ (Simple ''id'' ''='' (insertId_or_0 r) (nextType s) # cx)"
      using ih(1) by (simp add: where_tq_fields)
    show "length (Simple ''id'' ''='' (insertId_or_0 r) (nextType s) # cx) = length (row # rows)"
      using ih(2) by simp
    show "sent' = sent @ (insert_sql (tableName s) row # q # sx)"
      using ih(3) by simp
    show "length (insert_sql (tableName s) row # q # sx) = 2 * length (row # rows)"
      using ih(4) by simp
    show "res = acc @ (first_or_null rr # rx)"
      using ih(5) by simp
    show "length (first_or_null rr # rx) = length (row # rows)"
      using ih(6) by simp
  qed
qed


lemma insert_loop_index:
  "insert_loop ex rows s sent acc = (Inr res, s', sent') \<Longrightarrow> i < length rows \<Longrightarrow>
     sent' ! (length sent + 2 * i) = insert_sql (tableName s) (rows ! i)
     \<and> (\<exists>r. ex (take (length sent + 2 * i) sent') (sent' ! (length sent + 2 * i)) = Inr r
            \<and> conditions s' ! (length (conditions s) + i)
                = Simple ''id'' ''='' (insertId_or_0 r) (if i = 0 then nextType s else ''AND''))
     \<and> buildQuery True (s\<lparr>conditions := take (length (conditions s) + i + 1) (conditions s')\<rparr>)
           = Inr (sent' ! (length sent + 2 * i + 1))
     \<and> (\<exists>rr. ex (take (length sent + 2 * i + 1) sent') (sent' ! (length sent + 2 * i + 1)) = Inr rr
            \<and> res ! (length acc + i) = first_or_null rr)"
proof (induction rows arbitrary: s sent acc i)
  case Nil
  then show ?case by simp
next
  case (Cons row rows)
  let ?ins = "insert_sql (tableName s) row"
  from insert_loop_Cons_Inr [OF Cons.prems(1)] obtain r q rr where
    ex1: "ex sent ?ins = Inr r" and
    bq: "buildQuery True (where_tq ''id'' (Some ''='') (insertId_or_0 r) s) = Inr q" and
    ex2: "ex (sent @ [?ins]) q = Inr rr" and
    run: "insert_loop ex rows (where_tq ''id'' (Some ''='') (insertId_or_0 r) s)
            (sent @ [?ins, q]) (acc @ [first_or_null rr]) = (Inr res, s', sent')"
    by blast
  let ?s1 = "where_tq ''id'' (Some ''='') (insertId_or_0 r) s"
  let ?c0 = "Simple ''id'' ''='' (insertId_or_0 r) (nextType s)"
  have cs1: "conditions ?s1 = conditions s @ [?c0]"
    by (simp add: where_tq_fields)
  from insert_loop_extends [OF run] obtain cx sx rx where
    ext: "conditions s' = (conditions s @ [?c0]) @ cx"
         "sent' = (sent @ [?ins, q]) @ sx"
         "res = (acc @ [first_or_null rr]) @ rx"
    unfolding cs1 by blast
  show ?case
  proof (cases i)
    case 0
    have a: "sent' ! (length sent + 2 * 0) = ?ins"
      by (simp add: ext(2) nth_append)
    have t0: "take (length sent + 2 * 0) sent' = sent"
      by (simp add: ext(2))
    have c: "conditions s' ! (length (conditions s) + 0) = ?c0"
      by (simp add: ext(1) nth_append)
    have tk: "take (length (conditions s) + 0 + 1) (conditions s') = conditions ?s1"
      by (simp add: ext(1) cs1)
    have "buildQuery True (s\<lparr>conditions := conditions ?s1\<rparr>)
            = buildQuery True (?s1\<lparr>conditions := conditions ?s1\<rparr>)"
      by (simp only: buildQuery_where_tq_conditions)
    then have b: "buildQuery True (s\<lparr>conditions := take (length (conditions s) + 0 + 1) (conditions s')\<rparr>)
            = Inr q"
      unfolding tk using bq by simp
    have q: "sent' ! (length sent + 2 * 0 + 1) = q"
      by (simp add: ext(2) nth_append)
    have t1: "take (length sent + 2 * 0 + 1) sent' = sent @ [?ins]"
      by (simp add: ext(2))
    have d: "res ! (length acc + 0) = first_or_null rr"
      by (simp add: ext(3) nth_append)
    from a t0 c b q t1 d ex1 ex2 show ?thesis
      unfolding 0 by simp
  next
    case (Suc j)
    then have j: "j < length rows"
      using Cons.prems(2) by simp
    note ih = Cons.IH [OF run j]
    have l2: "length (sent @ [?ins, q]) + 2 * j = length sent + 2 * Suc j"
      by simp
    have l3: "length (sent @ [?ins, q]) + 2 * j + 1 = length sent + 2 * Suc j + 1"
      by simp
    have lc: "length (conditions ?s1) + j = length (conditions s) + Suc j"
      by (simp add: cs1)
    have la: "length (acc @ [first_or_null rr]) + j = length acc + Suc j"
      by simp
    have a: "sent' ! (length sent + 2 * Suc j) = insert_sql (tableName s) ((row # rows) ! Suc j)"
      using ih unfolding l2 by (simp add: where_tq_fields)
    have b: "\<exists>r. ex (take (length sent + 2 * Suc j) sent') (sent' ! (length sent + 2 * Suc j)) = Inr r
            \<and> conditions s' ! (length (conditions s) + Suc j)
                = Simple ''id'' ''='' (insertId_or_0 r) (if Suc j = 0 then nextType s else ''AND'')"
      using ih unfolding l2 lc by (auto simp: where_tq_fields)
    have "buildQuery True (?s1\<lparr>conditions := take (length (conditions ?s1) + j + 1) (conditions s')\<rparr>)
           = Inr (sent' ! (length (sent @ [?ins, q]) + 2 * j + 1))"
      using ih by blast
    then have c: "buildQuery True (s\<lparr>conditions := take (length (conditions s) + Suc j + 1) (conditions s')\<rparr>)
           = Inr (sent' ! (length sent + 2 * Suc j + 1))"
      unfolding l3 lc buildQuery_where_tq_conditions .
    have d: "\<exists>rr. ex (take (length sent + 2 * Suc j + 1) sent') (sent' ! (length sent + 2 * Suc j + 1)) = Inr rr
            \<and> res ! (length acc + Suc j) = first_or_null rr"
      using ih unfolding l3 la by blast
    from a b c d show ?thesis
      unfolding Suc by blast
  qed
qed


lemma insert_tq_Inr:
  assumes "insert_tq ex (JArr rows) s sent = (Inr results, s', sent')"
  shows "list_all is_object rows \<and> insert_loop ex rows s sent [] = (Inr results, s', sent')"
  using assms
  by (auto simp: insert_tq_def split: if_splits prod.splits sum.splits)


text \<open>
  Claim C10. When \<^verbatim>\<open>insert\<close> of the rows returns, the condition sequence of the
  builder is the old one followed by one condition for each row: the equality of column
  \<^verbatim>\<open>id\<close> to the \<^verbatim>\<open>insertId\<close> (or 0) of the executor's answer to that row's
  \<^verbatim>\<open>INSERT\<close>, carrying the pending combinator for the first row and \<^verbatim>\<open>AND\<close> for
  the later ones. The lookup of row \<open>i\<close> (counted from 0) is the query of the builder
  with the conditions up to and including that row's.
\<close>

theorem insert_appends_id_conditions:
  assumes "insert_tq ex (JArr rows) s sent = (Inr results, s', sent')"
  shows "length (conditions s') = length (conditions s) + length rows
     \<and> take (length (conditions s)) (conditions s') = conditions s
     \<and> (\<forall>i<length rows.
          (\<exists>r. ex (take (length sent + 2 * i) sent') (insert_sql (tableName s) (rows ! i)) = Inr r
               \<and> conditions s' ! (length (conditions s) + i)
                   = Simple ''id'' ''='' (insertId_or_0 r) (if i = 0 then nextType s else ''AND''))
          \<and> buildQuery True
               (s\<lparr>conditions := take (length (conditions s) + i + 1) (conditions s')\<rparr>)
              = Inr (sent' ! (length sent + 2 * i + 1)))"
proof -
  from insert_tq_Inr [OF assms] have run: "insert_loop ex rows s sent [] = (Inr results, s', sent')"
    by blast
  from insert_loop_extends [OF run] have
    "length (conditions s') = length (conditions s) + length rows"
    "take (length (conditions s)) (conditions s') = conditions s"
    by auto
  moreover have "\<forall>i<length rows.
          (\<exists>r. ex (take (length sent + 2 * i) sent') (insert_sql (tableName s) (rows ! i)) = Inr r
               \<and> conditions s' ! (length (conditions s) + i)
                   = Simple ''id'' ''='' (insertId_or_0 r) (if i = 0 then nextType s else ''AND''))
          \<and> buildQuery True
               (s\<lparr>conditions := take (length (conditions s) + i + 1) (conditions s')\<rparr>)
              = Inr (sent' ! (length sent + 2 * i + 1))"
  proof (intro allI impI)
    fix i assume "i < length rows"
    from insert_loop_index [OF run this] show
      "(\<exists>r. ex (take (length sent + 2 * i) sent') (insert_sql (tableName s) (rows ! i)) = Inr r
               \<and> conditions s' ! (length (conditions s) + i)
                   = Simple ''id'' ''='' (insertId_or_0 r) (if i = 0 then nextType s else ''AND''))
          \<and> buildQuery True
               (s\<lparr>conditions := take (length (conditions s) + i + 1) (conditions s')\<rparr>)
              = Inr (sent' ! (length sent + 2 * i + 1))"
      by auto
  qed
  ultimately show ?thesis
    by blast
qed


lemmas insert_eval =
  insert_tq_def get_response_def first_def where_tq_def TableQuery_def insert_sql_def
  buildQuery_def buildConditions_def cond_fragment_def clause_defs backticked_def quoted_def
  insert_value_def demo_executor_def Let_def

lemma demo_insert_run:
  "insert_tq demo_executor (JArr [JObj [(''name'', JStr ''Alice'')], JObj [(''name'', JStr ''Bob'')]])
      (TableQuery ''users'') []
   = (Inr [JObj [(''seen'', JNumber (Num 1))], JObj [(''seen'', JNumber (Num 3))]],
      (TableQuery ''users'')
        \<lparr>conditions := [Simple ''id'' ''='' (JNumber (Num 1)) ''AND'',
                        Simple ''id'' ''='' (JNumber (Num 3)) ''AND'']\<rparr>,
      [''INSERT INTO `users` (`name`) VALUES ('Alice')'',
       ''SELECT * FROM `users` WHERE id = 1'',
       ''INSERT INTO `users` (`name`) VALUES ('Bob')'',
       ''SELECT * FROM `users` WHERE id = 1 AND id = 3''])"
  by (simp add: insert_eval show_int_eval)


theorem insert_appends_id_conditions_witness:
  "length (conditions (fst (snd (insert_tq demo_executor
       (JArr [JObj [(''name'', JStr ''Alice'')], JObj [(''name'', JStr ''Bob'')]])
       (TableQuery ''users'') [])))) = 2
   \<and> conditions (fst (snd (insert_tq demo_executor
       (JArr [JObj [(''name'', JStr ''Alice'')], JObj [(''name'', JStr ''Bob'')]])
       (TableQuery ''users'') []))) ! 1
       = Simple ''id'' ''='' (JNumber (Num 3)) ''AND''
   \<and> buildQuery True ((TableQuery ''users'')
        \<lparr>conditions := [Simple ''id'' ''='' (JNumber (Num 1)) ''AND'',
                        Simple ''id'' ''='' (JNumber (Num 3)) ''AND'']\<rparr>)
       = Inr ''SELECT * FROM `users` WHERE id = 1 AND id = 3''"
proof -
  let ?rows = "[JObj [(''name'', JStr ''Alice'')], JObj [(''name'', JStr ''Bob'')]]"
  let ?s = "TableQuery ''users''"
  let ?cs = "[Simple ''id'' ''='' (JNumber (Num 1)) ''AND'',
              Simple ''id'' ''='' (JNumber (Num 3)) ''AND'']"
  let ?s' = "?s\<lparr>conditions := ?cs\<rparr>"
  let ?sent' = "[''INSERT INTO `users` (`name`) VALUES ('Alice')'',
       ''SELECT * FROM `users` WHERE id = 1'',
       ''INSERT INTO `users` (`name`) VALUES ('Bob')'',
       ''SELECT * FROM `users` WHERE id = 1 AND id = 3'']"
  note run = demo_insert_run
  from insert_appends_id_conditions [OF run]
  have len: "length (conditions ?s') = length (conditions ?s) + length ?rows"
    and all: "\<forall>i<length ?rows.
          (\<exists>r. demo_executor (take (length ([]::string list) + 2 * i) ?sent')
                  (insert_sql (tableName ?s) (?rows ! i)) = Inr r
               \<and> conditions ?s' ! (length (conditions ?s) + i)
                   = Simple ''id'' ''='' (insertId_or_0 r) (if i = 0 then nextType ?s else ''AND''))
          \<and> buildQuery True
               (?s\<lparr>conditions := take (length (conditions ?s) + i + 1) (conditions ?s')\<rparr>)
              = Inr (?sent' ! (length ([]::string list) + 2 * i + 1))"
    by blast+
  have i1: "(1::nat) < length ?rows"
    by simp
  from all i1 have "buildQuery True
               (?s\<lparr>conditions := take (length (conditions ?s) + 1 + 1) (conditions ?s')\<rparr>)
              = Inr (?sent' ! (length ([]::string list) + 2 * 1 + 1))"
    by blast
  then have bq: "buildQuery True ?s' = Inr ''SELECT * FROM `users` WHERE id = 1 AND id = 3''"
    by (simp add: TableQuery_def)
  from len have l2: "length (conditions ?s') = 2"
    by (simp add: TableQuery_def)
  show ?thesis
    unfolding run using l2 bq by simp
qed






end
